theory Spec2Isabelle
  imports Complex_Main
begin

section \<open>Alien Invaders: the entities\<close>

text \<open>
  The program is one Python file, \<^verbatim>\<open>alien_invaders_terminal.py\<close>. Its classes
  become records, with the subclass relation of \<^verbatim>\<open>Sprite\<close> as record extension.
  Coordinates are Python's unbounded integers, so they are \<^typ>\<open>int\<close>. A sprite's
  \<^verbatim>\<open>char\<close> is a one-character string; it is kept as the code point of that
  character, since one of the alien frames is not an ASCII character.

  The classes define no \<^verbatim>\<open>__eq__\<close>, so Python compares sprites by identity, and
  every sprite is appended to exactly one list by the constructor call that creates it.
  A list therefore never holds the same object twice, and \<^verbatim>\<open>lst.remove(obj)\<close>
  for the object under iteration deletes exactly that position of the list. The loops
  below are recursions over the copy \<^verbatim>\<open>lst[:]\<close> that return the list as it is
  left behind: an object that the loop removes is not handed on, every other object is.
\<close>

record sprite =
  x :: int
  y :: int
  char :: nat

record laser = sprite +
  dir :: int

record player = sprite +
  max_x :: int

record alien = sprite +
  frame :: int

definition Laser :: "int \<Rightarrow> int \<Rightarrow> int \<Rightarrow> laser" where
  "Laser x0 y0 direction = \<lparr>x = x0, y = y0, char = 124, dir = direction\<rparr>"

definition update :: "laser \<Rightarrow> laser" where
  "update l = l\<lparr>y := y l + dir l\<rparr>"

definition Player :: "int \<Rightarrow> int \<Rightarrow> int \<Rightarrow> player" where
  "Player x0 y0 mx = \<lparr>x = x0, y = y0, char = 65, max_x = mx\<rparr>"

definition move :: "int \<Rightarrow> player \<Rightarrow> player" where
  "move dx p = p\<lparr>x := max 1 (min (max_x p - 2) (x p + dx))\<rparr>"

definition FRAMES :: "nat list" where
  "FRAMES = [47, 86, 92, 923]"

definition Alien :: "int \<Rightarrow> int \<Rightarrow> alien" where
  "Alien x0 y0 = \<lparr>x = x0, y = y0, char = FRAMES ! 0, frame = 0\<rparr>"

definition animate :: "alien \<Rightarrow> alien" where
  "animate a =
     (let f = (frame a + 1) mod int (length FRAMES)
      in a\<lparr>char := FRAMES ! nat f, frame := f\<rparr>)"

section \<open>The game state\<close>

record game_state =
  height :: int
  width :: int
  player :: player
  aliens :: "alien list"
  player_lasers :: "laser list"
  alien_lasers :: "laser list"
  alien_dir :: int
  tick :: int
  score :: int
  level :: int
  game_over :: bool

text \<open>\<^verbatim>\<open>range(n)\<close> for an integer \<open>n\<close>.\<close>

definition range_py :: "int \<Rightarrow> int list" where
  "range_py n = [0..n - 1]"

text \<open>
  \<^verbatim>\<open>init_aliens\<close>: two nested \<^verbatim>\<open>for\<close> loops, each step appending one alien to
  \<^verbatim>\<open>self.aliens\<close>.
\<close>

definition init_aliens :: "game_state \<Rightarrow> game_state" where
  "init_aliens s =
     (let rows = 5; cols = 11;
          x_margin = (width s - cols * 4) div 2
      in fold (\<lambda>r. fold (\<lambda>c s'. s'\<lparr>aliens := aliens s' @ [Alien (x_margin + c * 4) (2 + r * 2)]\<rparr>)
                         (range_py cols))
              (range_py rows) s)"

text \<open>
  \<^verbatim>\<open>GameState.__init__\<close>, given the pair that \<^verbatim>\<open>win.getmaxyx()\<close> returns. The
  window handle itself is not part of the model.
\<close>

definition GameState :: "int \<Rightarrow> int \<Rightarrow> game_state" where
  "GameState h w =
     init_aliens
       \<lparr>height = h, width = w,
        player = Player (w div 2) (h - 2) w,
        aliens = [], player_lasers = [], alien_lasers = [],
        alien_dir = 1, tick = 0, score = 0, level = 1, game_over = False\<rparr>"

text \<open>
  \<^verbatim>\<open>alien_speed\<close>. Python computes in binary floating point; the model computes the
  same expression in the reals, so it says nothing about rounding.
\<close>

definition alien_speed :: "game_state \<Rightarrow> real" where
  "alien_speed s = max (5 / 100) (3 / 10 - real_of_int (level s - 1) * (3 / 100))"

section \<open>One pass of the main loop\<close>

text \<open>Key codes: \<^verbatim>\<open>ord("q")\<close>, \<^verbatim>\<open>ord("Q")\<close>, \<^verbatim>\<open>ord(" ")\<close>, \<^verbatim>\<open>ord("z")\<close> and the
  curses constants \<^verbatim>\<open>KEY_LEFT\<close> and \<^verbatim>\<open>KEY_RIGHT\<close>.\<close>

definition ord_q :: int where "ord_q = 113"
definition ord_Q :: int where "ord_Q = 81"
definition ord_space :: int where "ord_space = 32"
definition ord_z :: int where "ord_z = 122"
definition KEY_LEFT :: int where "KEY_LEFT = 260"
definition KEY_RIGHT :: int where "KEY_RIGHT = 261"

text \<open>The input branch of the loop body, for a key that is not a quit key.\<close>

definition handle_input :: "int \<Rightarrow> game_state \<Rightarrow> game_state" where
  "handle_input key s =
     (if key = KEY_LEFT then s\<lparr>player := move (- 1) (player s)\<rparr>
      else if key = KEY_RIGHT then s\<lparr>player := move 1 (player s)\<rparr>
      else if key = ord_space \<or> key = ord_z then
        (if int (length (player_lasers s)) < 3
         then s\<lparr>player_lasers :=
                  player_lasers s @ [Laser (x (player s)) (y (player s) - 1) (- 1)]\<rparr>
         else s)
      else s)"

text \<open>
  The first loop of the alien movement: every alien steps sideways, and
  \<^verbatim>\<open>edge_hit\<close> is set when the alien that has just stepped is at a margin.
\<close>

fun step_aliens :: "int \<Rightarrow> int \<Rightarrow> alien list \<Rightarrow> bool \<Rightarrow> alien list \<times> bool" where
  "step_aliens d w [] edge_hit = ([], edge_hit)"
| "step_aliens d w (a # as) edge_hit =
     (let a' = a\<lparr>x := x a + d\<rparr>;
          edge_hit' = (if x a' \<le> 1 \<or> x a' \<ge> w - 2 then True else edge_hit);
          (as', e) = step_aliens d w as edge_hit'
      in (a' # as', e))"

text \<open>The second loop: every alien moves one row down, and the game is over when the alien
  that has just moved is on the player's row or below it.\<close>

fun descend_aliens :: "int \<Rightarrow> alien list \<Rightarrow> bool \<Rightarrow> alien list \<times> bool" where
  "descend_aliens py [] over = ([], over)"
| "descend_aliens py (a # as) over =
     (let a' = a\<lparr>y := y a + 1\<rparr>;
          over' = (if y a' \<ge> py then True else over);
          (as', g) = descend_aliens py as over'
      in (a' # as', g))"

text \<open>The body of \<^verbatim>\<open>if now - last_move > state.alien_speed()\<close>, without the timer.\<close>

definition update_aliens_movement :: "game_state \<Rightarrow> game_state" where
  "update_aliens_movement s =
     (let (as1, edge_hit) = step_aliens (alien_dir s) (width s) (aliens s) False;
          s1 = s\<lparr>aliens := as1\<rparr>
      in if edge_hit then
           (let s2 = s1\<lparr>alien_dir := alien_dir s1 * (- 1)\<rparr>;
                (as2, over) = descend_aliens (y (player s2)) (aliens s2) (game_over s2)
            in s2\<lparr>aliens := as2, game_over := over\<rparr>)
         else s1)"

definition alien_animation :: "game_state \<Rightarrow> game_state" where
  "alien_animation s = s\<lparr>aliens := map animate (aliens s)\<rparr>"

text \<open>
  Aliens fire randomly. The two random draws are inputs: \<open>rnd\<close> is the value of
  \<^verbatim>\<open>random.random()\<close> and \<open>pick\<close> selects the element that \<^verbatim>\<open>random.choice\<close>
  returns (reduced modulo the length, so that every number names an element of the
  list).
\<close>

definition aliens_fire :: "real \<Rightarrow> nat \<Rightarrow> game_state \<Rightarrow> game_state" where
  "aliens_fire rnd pick s =
     (if aliens s \<noteq> [] \<and> rnd < 2 / 100 then
        (let shooter = aliens s ! (pick mod length (aliens s))
         in s\<lparr>alien_lasers := alien_lasers s @ [Laser (x shooter) (y shooter + 1) 1]\<rparr>)
      else s)"

text \<open>
  Update lasers. Each loop runs over a copy of the list, moves the laser and removes
  it from the list when it is at the boundary.
\<close>

fun update_player_lasers :: "laser list \<Rightarrow> laser list" where
  "update_player_lasers [] = []"
| "update_player_lasers (l # ls) =
     (let l' = update l
      in if y l' \<le> 1 then update_player_lasers ls
         else l' # update_player_lasers ls)"

fun update_alien_lasers :: "int \<Rightarrow> laser list \<Rightarrow> laser list" where
  "update_alien_lasers h [] = []"
| "update_alien_lasers h (l # ls) =
     (let l' = update l
      in if y l' \<ge> h - 1 then update_alien_lasers h ls
         else l' # update_alien_lasers h ls)"

definition update_lasers :: "game_state \<Rightarrow> game_state" where
  "update_lasers s =
     (let s1 = s\<lparr>player_lasers := update_player_lasers (player_lasers s)\<rparr>
      in s1\<lparr>alien_lasers := update_alien_lasers (height s1) (alien_lasers s1)\<rparr>)"

text \<open>
  Player lasers hit aliens. The inner loop scans a copy of the aliens for the first one
  at the laser's position; \<open>Some as\<close> is the list of aliens after that alien has been
  removed (the \<^verbatim>\<open>break\<close>), \<open>None\<close> says that the loop ran to its end.
\<close>

fun hit_alien :: "laser \<Rightarrow> alien list \<Rightarrow> alien list option" where
  "hit_alien l [] = None"
| "hit_alien l (a # as) =
     (if x l = x a \<and> y l = y a then Some as
      else map_option ((#) a) (hit_alien l as))"

text \<open>The outer loop, over a copy of the player's lasers; it returns the lasers that are
  left, the aliens that are left and the score.\<close>

fun lasers_hit_aliens :: "laser list \<Rightarrow> alien list \<Rightarrow> int \<Rightarrow> laser list \<times> alien list \<times> int" where
  "lasers_hit_aliens [] as sc = ([], as, sc)"
| "lasers_hit_aliens (l # ls) as sc =
     (case hit_alien l as of
        None \<Rightarrow> (let (ls', as', sc') = lasers_hit_aliens ls as sc in (l # ls', as', sc'))
      | Some as1 \<Rightarrow> lasers_hit_aliens ls as1 (sc + 10))"

definition player_lasers_hit_aliens :: "game_state \<Rightarrow> game_state" where
  "player_lasers_hit_aliens s =
     (let (ls, as, sc) = lasers_hit_aliens (player_lasers s) (aliens s) (score s)
      in s\<lparr>aliens := as, player_lasers := ls, score := sc\<rparr>)"

text \<open>Alien lasers hit the player: a loop over a copy of the alien lasers that only ever
  sets the flag.\<close>

fun lasers_hit_player :: "player \<Rightarrow> laser list \<Rightarrow> bool \<Rightarrow> bool" where
  "lasers_hit_player p [] over = over"
| "lasers_hit_player p (l # ls) over =
     lasers_hit_player p ls (if x l = x p \<and> y l = y p then True else over)"

definition alien_lasers_hit_player :: "game_state \<Rightarrow> game_state" where
  "alien_lasers_hit_player s =
     s\<lparr>game_over := lasers_hit_player (player s) (alien_lasers s) (game_over s)\<rparr>"

definition check_level_cleared :: "game_state \<Rightarrow> game_state" where
  "check_level_cleared s =
     (if aliens s = [] then
        (let s1 = s\<lparr>level := level s + 1\<rparr>;
             s2 = init_aliens s1;
             s3 = s2\<lparr>player_lasers := []\<rparr>
         in s3\<lparr>alien_lasers := []\<rparr>)
      else s)"

section \<open>The main loop\<close>

text \<open>
  What one pass of the loop reads from outside: the clock, the key that
  \<^verbatim>\<open>getch\<close> returns (\<open>-1\<close> when there is none) and the two random draws. The
  variables of \<^verbatim>\<open>play\<close> that live across passes are the state and the two timers.
  The clock is a Python float; it is modelled as a real number.
\<close>

record pass_input =
  now :: real
  key :: int
  rnd :: real
  pick :: nat

record play_vars =
  state :: game_state
  last_move :: real
  last_anim :: real

definition movement_pass :: "real \<Rightarrow> play_vars \<Rightarrow> play_vars" where
  "movement_pass t v =
     (if t - last_move v > alien_speed (state v)
      then v\<lparr>state := update_aliens_movement (state v), last_move := t\<rparr>
      else v)"

definition animation_pass :: "real \<Rightarrow> play_vars \<Rightarrow> play_vars" where
  "animation_pass t v =
     (if t - last_anim v > 3 / 10
      then v\<lparr>state := alien_animation (state v), last_anim := t\<rparr>
      else v)"

text \<open>
  The loop body after the quit test. Drawing comes last in the source; it reads the
  state and writes to the screen only, and is left out. The sprites are drawn with
  \<^verbatim>\<open>curses.error\<close> caught; the score and the level are written without, the level
  at column \<open>width - 15\<close>, so the loop modelled here is that of a window on which
  these two texts can be written (15 columns are enough for a start).
\<close>

definition loop_body :: "pass_input \<Rightarrow> play_vars \<Rightarrow> play_vars" where
  "loop_body i v =
     (let v1 = v\<lparr>state := handle_input (key i) (state v)\<rparr>;
          v2 = movement_pass (now i) v1;
          v3 = animation_pass (now i) v2;
          s4 = aliens_fire (rnd i) (pick i) (state v3);
          s5 = update_lasers s4;
          s6 = player_lasers_hit_aliens s5;
          s7 = alien_lasers_hit_player s6;
          s8 = check_level_cleared s7
      in v3\<lparr>state := s8\<rparr>)"

datatype loop_exit = Quit | GameOver

text \<open>
  The \<^verbatim>\<open>while not state.game_over\<close> loop, driven by the list of inputs of its
  passes. \<open>None\<close> says that the loop is still running when the inputs are used up.
\<close>

fun game_loop :: "pass_input list \<Rightarrow> play_vars \<Rightarrow> (loop_exit \<times> play_vars) option" where
  "game_loop [] v = (if game_over (state v) then Some (GameOver, v) else None)"
| "game_loop (i # is) v =
     (if game_over (state v) then Some (GameOver, v)
      else if key i = ord_q \<or> key i = ord_Q then Some (Quit, v)
      else game_loop is (loop_body i v))"

text \<open>
  The curses calls that follow the loop, as the list of the calls made, in order, and
  the exception that ends them, if there is one. \<^verbatim>\<open>addstr\<close> is a function of the
  curses library: it moves to the given cell and writes the text from there, going on
  at the start of the next row when a row is full, and it raises \<^verbatim>\<open>curses.error\<close>
  when the cell is not in the window or when the text does not end before the last
  cell of the window. \<^verbatim>\<open>play\<close> catches no exception, so a call that raises is the
  last call. The window is taken to have the size that the game state has stored.
\<close>

datatype error = curses_error

datatype curses_call = Nodelay bool | Addstr int int "nat list" | Getch

definition addstr_raises :: "int \<Rightarrow> int \<Rightarrow> int \<Rightarrow> int \<Rightarrow> nat \<Rightarrow> bool" where
  "addstr_raises h w row col n =
     (row < 0 \<or> h \<le> row \<or> col < 0 \<or> w \<le> col \<or> h * w \<le> row * w + col + int n)"

definition msg :: "nat list" where
  "msg = map of_char ''GAME OVER '' @ [8210] @ map of_char '' Press any key to exit''"

definition game_over_screen :: "game_state \<Rightarrow> curses_call list \<times> error option" where
  "game_over_screen s =
     (let row = height s div 2;
          col = (width s - int (length msg)) div 2
      in if addstr_raises (height s) (width s) row col (length msg)
         then ([Nodelay False, Addstr row col msg], Some curses_error)
         else ([Nodelay False, Addstr row col msg, Getch], None))"

text \<open>
  \<^verbatim>\<open>play\<close>, from the size of the screen, the clock at the start and the inputs of
  the passes: how the loop ended, the final state, and the calls made after the loop
  with the exception that ended them, if one did. The lines after the loop stand
  outside of any test, so they run however the loop was left.
\<close>

definition play :: "int \<Rightarrow> int \<Rightarrow> real \<Rightarrow> pass_input list \<Rightarrow> (loop_exit \<times> game_state \<times> curses_call list \<times> error option) option" where
  "play h w t0 ins =
     (case game_loop ins \<lparr>state = GameState h w, last_move = t0, last_anim = t0\<rparr> of
        None \<Rightarrow> None
      | Some (e, v) \<Rightarrow> Some (e, state v, game_over_screen (state v)))"

section \<open>Terms of the specification\<close>

text \<open>
  Two notions that the specification uses and the program does not name.
  \<open>clamp v lo hi\<close> is the specification's clamping of \<open>v\<close> to the interval from
  \<open>lo\<close> to \<open>hi\<close>. \<open>spec_spawn w\<close> is the wave the specification describes
  for a field of width \<open>w\<close>: five rows of eleven aliens, rows two apart from row 2 on,
  columns four apart, eleven cells of four columns centred in the field.
\<close>

definition clamp :: "int \<Rightarrow> int \<Rightarrow> int \<Rightarrow> int" where
  "clamp v lo hi = max lo (min hi v)"

definition spec_spawn :: "int \<Rightarrow> alien list" where
  "spec_spawn w = [Alien ((w - 11 * 4) div 2 + 4 * c) (2 + 2 * r). r \<leftarrow> [0..4], c \<leftarrow> [0..10]]"

text \<open>
  \<^verbatim>\<open>stdscr.border()\<close> draws the frame on the outermost cells of the window: the top
  border is row 0 and the bottom border is row \<open>height - 1\<close>. \<open>spec_update_lasers\<close>
  is the laser update as the specification words it: every laser moves, a player laser
  goes when its row has reached the top border, an alien laser goes when its row has
  reached or passed the bottom border.
\<close>

definition top_border :: int where
  "top_border = 0"

definition bottom_border :: "int \<Rightarrow> int" where
  "bottom_border h = h - 1"

definition spec_update_lasers :: "game_state \<Rightarrow> game_state" where
  "spec_update_lasers s =
     s\<lparr>player_lasers := filter (\<lambda>l. \<not> y l \<le> top_border) (map update (player_lasers s)),
       alien_lasers :=
         filter (\<lambda>l. \<not> y l \<ge> bottom_border (height s)) (map update (alien_lasers s))\<rparr>"


section \<open>A state to run the program on\<close>

text \<open>
  A small state in the middle of a game, on an 80 x 24 screen: two aliens, two player
  lasers of which the first is right below the first alien, and two alien lasers of
  which the first is right above the player. \<open>demo_input\<close> is a pass with no key
  pressed, no timer due and no alien firing.
\<close>

definition demo :: game_state where
  "demo =
     \<lparr>height = 24, width = 80, player = Player 40 22 80,
      aliens = [Alien 10 5, Alien 14 5],
      player_lasers = [Laser 10 6 (- 1), Laser 3 9 (- 1)],
      alien_lasers = [Laser 40 21 1, Laser 7 7 1],
      alien_dir = 1, tick = 0, score = 0, level = 1, game_over = False\<rparr>"

definition demo_input :: pass_input where
  "demo_input = \<lparr>now = 1 / 10, key = - 1, rnd = 1 / 2, pick = 0\<rparr>"

text \<open>
  Three passes from the start of a game on an 80 x 14 screen: the player steps right
  twice, to column 42, and then the alien at index 50 of the wave (row 10, column 42)
  fires. Its laser starts on row 11 and moves to row 12, the player's row.
\<close>

definition small_run :: "pass_input list" where
  "small_run =
     [\<lparr>now = 1 / 10, key = KEY_RIGHT, rnd = 1 / 2, pick = 0\<rparr>,
      \<lparr>now = 1 / 10, key = KEY_RIGHT, rnd = 1 / 2, pick = 0\<rparr>,
      \<lparr>now = 1 / 10, key = - 1, rnd = 1 / 100, pick = 50\<rparr>]"


section \<open>Auxiliary facts\<close>

lemma upto_0_4: "[0..4::int] = [0, 1, 2, 3, 4]"
  by code_simp

lemma upto_0_10: "[0..10::int] = [0, 1, 2, 3, 4, 5, 6, 7, 8, 9, 10]"
  by code_simp

lemma fold_append_aliens:
  "fold (\<lambda>c s'. s'\<lparr>aliens := aliens s' @ [f c]\<rparr>) cs = (\<lambda>s. s\<lparr>aliens := aliens s @ map f cs\<rparr>)"
proof
  fix s
  show "fold (\<lambda>c s'. s'\<lparr>aliens := aliens s' @ [f c]\<rparr>) cs s = s\<lparr>aliens := aliens s @ map f cs\<rparr>"
    by (induction cs arbitrary: s) simp_all
qed

lemma fold_append_rows:
  "fold (\<lambda>r s'. s'\<lparr>aliens := aliens s' @ g r\<rparr>) rs s = s\<lparr>aliens := aliens s @ concat (map g rs)\<rparr>"
  by (induction rs arbitrary: s) simp_all

lemma init_aliens_eq: "init_aliens s = s\<lparr>aliens := aliens s @ spec_spawn (width s)\<rparr>"
  by (simp add: init_aliens_def spec_spawn_def range_py_def fold_append_aliens fold_append_rows
      Let_def mult.commute)

lemma GameState_eq:
  "GameState h w =
     \<lparr>height = h, width = w, player = Player (w div 2) (h - 2) w,
      aliens = spec_spawn w, player_lasers = [], alien_lasers = [],
      alien_dir = 1, tick = 0, score = 0, level = 1, game_over = False\<rparr>"
  by (simp add: GameState_def init_aliens_eq)

lemma length_spec_spawn: "length (spec_spawn w) = 55"
  by (simp add: spec_spawn_def upto_0_4 upto_0_10)

lemma move_in_range:
  "1 \<le> x p \<Longrightarrow> x p \<le> max_x p - 2 \<Longrightarrow>
     1 \<le> x (move dx p) \<and> x (move dx p) \<le> max_x (move dx p) - 2"
  by (simp add: move_def)

lemma fold_move_in_range:
  "1 \<le> x p \<Longrightarrow> x p \<le> max_x p - 2 \<Longrightarrow>
     1 \<le> x (fold move dxs p) \<and> x (fold move dxs p) \<le> max_x p - 2 \<and>
     max_x (fold move dxs p) = max_x p"
proof (induction dxs arbitrary: p)
  case Nil
  then show ?case by simp
next
  case (Cons d ds)
  have "max_x (move d p) = max_x p"
    by (simp add: move_def)
  with Cons.IH [of "move d p"] move_in_range [OF Cons.prems, of d] show ?case
    by simp
qed

subsection \<open>What each part of the loop body leaves alone\<close>

lemma handle_input_frame:
  "y (player (handle_input k s)) = y (player s) \<and>
   max_x (player (handle_input k s)) = max_x (player s) \<and>
   height (handle_input k s) = height s \<and> width (handle_input k s) = width s"
  by (simp add: handle_input_def move_def)

lemma update_aliens_movement_frame:
  "player (update_aliens_movement s) = player s \<and>
   height (update_aliens_movement s) = height s \<and>
   width (update_aliens_movement s) = width s \<and>
   player_lasers (update_aliens_movement s) = player_lasers s"
  by (simp add: update_aliens_movement_def Let_def split: prod.splits)

lemma alien_animation_frame:
  "player (alien_animation s) = player s \<and> height (alien_animation s) = height s \<and>
   width (alien_animation s) = width s \<and>
   player_lasers (alien_animation s) = player_lasers s"
  by (simp add: alien_animation_def)

lemma aliens_fire_frame:
  "player (aliens_fire r n s) = player s \<and> height (aliens_fire r n s) = height s \<and>
   width (aliens_fire r n s) = width s \<and>
   player_lasers (aliens_fire r n s) = player_lasers s"
  by (simp add: aliens_fire_def Let_def)

lemma update_lasers_frame:
  "player (update_lasers s) = player s \<and> height (update_lasers s) = height s \<and>
   width (update_lasers s) = width s"
  by (simp add: update_lasers_def Let_def)

lemma player_lasers_hit_aliens_frame:
  "player (player_lasers_hit_aliens s) = player s \<and>
   height (player_lasers_hit_aliens s) = height s \<and>
   width (player_lasers_hit_aliens s) = width s"
  by (simp add: player_lasers_hit_aliens_def Let_def split: prod.splits)

lemma alien_lasers_hit_player_frame:
  "player (alien_lasers_hit_player s) = player s \<and>
   height (alien_lasers_hit_player s) = height s \<and>
   width (alien_lasers_hit_player s) = width s \<and>
   player_lasers (alien_lasers_hit_player s) = player_lasers s"
  by (simp add: alien_lasers_hit_player_def)

lemma check_level_cleared_frame:
  "player (check_level_cleared s) = player s \<and>
   height (check_level_cleared s) = height s \<and>
   width (check_level_cleared s) = width s"
  by (simp add: check_level_cleared_def init_aliens_eq Let_def)

lemma movement_pass_frame:
  "player (state (movement_pass t v)) = player (state v) \<and>
   height (state (movement_pass t v)) = height (state v) \<and>
   width (state (movement_pass t v)) = width (state v) \<and>
   player_lasers (state (movement_pass t v)) = player_lasers (state v)"
  by (simp add: movement_pass_def update_aliens_movement_frame)

lemma animation_pass_frame:
  "player (state (animation_pass t v)) = player (state v) \<and>
   height (state (animation_pass t v)) = height (state v) \<and>
   width (state (animation_pass t v)) = width (state v) \<and>
   player_lasers (state (animation_pass t v)) = player_lasers (state v)"
  by (simp add: animation_pass_def alien_animation_frame)

lemma loop_body_frame:
  "y (player (state (loop_body i v))) = y (player (state v)) \<and>
   max_x (player (state (loop_body i v))) = max_x (player (state v)) \<and>
   height (state (loop_body i v)) = height (state v) \<and>
   width (state (loop_body i v)) = width (state v)"
  by (simp add: loop_body_def Let_def check_level_cleared_frame alien_lasers_hit_player_frame
      player_lasers_hit_aliens_frame update_lasers_frame aliens_fire_frame animation_pass_frame
      movement_pass_frame handle_input_frame)

lemma game_loop_frame:
  "game_loop ins v = Some (e, v') \<Longrightarrow>
     y (player (state v')) = y (player (state v)) \<and>
     max_x (player (state v')) = max_x (player (state v)) \<and>
     height (state v') = height (state v) \<and> width (state v') = width (state v)"
proof (induction ins arbitrary: v)
  case Nil
  then show ?case by (simp split: if_splits)
next
  case (Cons i ins)
  show ?case
  proof (cases "game_over (state v) \<or> key i = ord_q \<or> key i = ord_Q")
    case True
    with Cons.prems show ?thesis by (auto split: if_splits)
  next
    case False
    with Cons.prems have "game_loop ins (loop_body i v) = Some (e, v')"
      by simp
    from Cons.IH [OF this] show ?thesis
      by (simp add: loop_body_frame)
  qed
qed

subsection \<open>The loops in closed form\<close>

lemma step_aliens_eq:
  "step_aliens d w as e =
     (map (\<lambda>a. a\<lparr>x := x a + d\<rparr>) as, e \<or> (\<exists>a\<in>set as. x a + d \<le> 1 \<or> x a + d \<ge> w - 2))"
  by (induction as arbitrary: e) (auto simp add: Let_def)

lemma descend_aliens_eq:
  "descend_aliens py as g =
     (map (\<lambda>a. a\<lparr>y := y a + 1\<rparr>) as, g \<or> (\<exists>a\<in>set as. y a + 1 \<ge> py))"
  by (induction as arbitrary: g) (auto simp add: Let_def)

lemma march_eq:
  "update_aliens_movement s =
    (let moved = map (\<lambda>a. a\<lparr>x := x a + alien_dir s\<rparr>) (aliens s) in
     if \<exists>a\<in>set moved. x a \<le> 1 \<or> x a \<ge> width s - 2
     then s\<lparr>aliens := map (\<lambda>a. a\<lparr>y := y a + 1\<rparr>) moved, alien_dir := - alien_dir s,
            game_over := game_over s \<or> (\<exists>a\<in>set moved. y a + 1 \<ge> y (player s))\<rparr>
     else s\<lparr>aliens := moved\<rparr>)"
  by (simp add: update_aliens_movement_def step_aliens_eq descend_aliens_eq Let_def)

lemma lasers_hit_player_eq:
  "lasers_hit_player p ls g = (g \<or> (\<exists>l\<in>set ls. x l = x p \<and> y l = y p))"
  by (induction ls arbitrary: g) auto

lemma update_player_lasers_eq:
  "update_player_lasers ls = filter (\<lambda>l. 1 < y l) (map update ls)"
  by (induction ls) (auto simp add: Let_def)

lemma update_alien_lasers_eq:
  "update_alien_lasers h ls = filter (\<lambda>l. y l < h - 1) (map update ls)"
  by (induction ls) (auto simp add: Let_def)



lemma hit_alien_length: "hit_alien l as = Some as' \<Longrightarrow> Suc (length as') = length as"
  by (induction as arbitrary: as') (auto split: if_splits)


lemma lasers_hit_aliens_count:
  "lasers_hit_aliens ls as sc = (ls', as', sc') \<Longrightarrow>
     length ls' \<le> length ls \<and>
     length as' + (length ls - length ls') = length as \<and>
     sc' = sc + 10 * int (length ls - length ls')"
proof (induction ls arbitrary: as sc ls' as' sc')
  case Nil
  then show ?case by simp
next
  case (Cons l ls)
  show ?case
  proof (cases "hit_alien l as")
    case None
    obtain ls1 as1 sc1 where r: "lasers_hit_aliens ls as sc = (ls1, as1, sc1)"
      by (cases "lasers_hit_aliens ls as sc") auto
    with None Cons.prems have "ls' = l # ls1" "as' = as1" "sc' = sc1"
      by auto
    with Cons.IH [OF r] show ?thesis
      by auto
  next
    case (Some as2)
    with Cons.prems have r: "lasers_hit_aliens ls as2 (sc + 10) = (ls', as', sc')"
      by simp
    from Cons.IH [OF r] hit_alien_length [OF Some] show ?thesis
      by auto
  qed
qed


subsection \<open>Running the example\<close>

lemmas eval_defs = loop_body_def Let_def handle_input_def movement_pass_def animation_pass_def
  aliens_fire_def update_lasers_def player_lasers_hit_aliens_def alien_lasers_hit_player_def
  check_level_cleared_def alien_speed_def update_def Laser_def Alien_def Player_def
  ord_q_def ord_Q_def ord_space_def ord_z_def KEY_LEFT_def KEY_RIGHT_def FRAMES_def
  update_aliens_movement_def alien_animation_def animate_def move_def

lemma loop_body_demo:
  "loop_body demo_input \<lparr>state = demo, last_move = 0, last_anim = 0\<rparr> =
     \<lparr>state = demo\<lparr>aliens := [Alien 14 5], player_lasers := [Laser 3 8 (- 1)],
                   alien_lasers := [Laser 40 22 1, Laser 7 8 1], score := 10, game_over := True\<rparr>,
      last_move = 0, last_anim = 0\<rparr>"
  by (simp add: demo_def demo_input_def eval_defs)

lemma game_loop_demo:
  "game_loop [demo_input] \<lparr>state = demo, last_move = 0, last_anim = 0\<rparr> =
     Some (GameOver,
       \<lparr>state = demo\<lparr>aliens := [Alien 14 5], player_lasers := [Laser 3 8 (- 1)],
                     alien_lasers := [Laser 40 22 1, Laser 7 8 1], score := 10, game_over := True\<rparr>,
        last_move = 0, last_anim = 0\<rparr>)"
proof -
  have "\<not> game_over demo"
    by (simp add: demo_def)
  moreover have "key demo_input \<noteq> ord_q \<and> key demo_input \<noteq> ord_Q"
    by (simp add: demo_input_def ord_q_def ord_Q_def)
  ultimately show ?thesis
    by (simp add: loop_body_demo)
qed

subsection \<open>Invariants of the loop\<close>

lemma game_loop_invariant:
  assumes step: "\<And>i v. P v \<Longrightarrow> P (loop_body i v)"
  shows "P v \<Longrightarrow> game_loop ins v = Some (e, v') \<Longrightarrow> P v'"
proof (induction ins arbitrary: v)
  case Nil then show ?case by (simp split: if_splits)
next
  case (Cons i ins)
  show ?case
  proof (cases "game_over (state v) \<or> key i = ord_q \<or> key i = ord_Q")
    case True
    with Cons.prems show ?thesis by (auto split: if_splits)
  next
    case False
    with Cons.prems have "game_loop ins (loop_body i v) = Some (e, v')" by simp
    from Cons.IH [OF step [OF Cons.prems(1)] this] show ?thesis .
  qed
qed


lemma length_lasers_hit_aliens:
  "length (fst (lasers_hit_aliens ls as sc)) \<le> length ls"
  using lasers_hit_aliens_count [of ls as sc] by (cases "lasers_hit_aliens ls as sc") auto

lemma handle_input_lasers:
  "length (player_lasers s) \<le> 3 \<Longrightarrow> length (player_lasers (handle_input k s)) \<le> 3"
  by (simp add: handle_input_def)

lemma update_lasers_length:
  "length (player_lasers (update_lasers s)) \<le> length (player_lasers s)"
  by (simp add: update_lasers_def update_player_lasers_eq Let_def)

lemma player_lasers_hit_aliens_length:
  "length (player_lasers (player_lasers_hit_aliens s)) \<le> length (player_lasers s)"
  using length_lasers_hit_aliens [of "player_lasers s" "aliens s" "score s"]
  by (auto simp add: player_lasers_hit_aliens_def split: prod.splits)

lemma check_level_cleared_length:
  "length (player_lasers (check_level_cleared s)) \<le> length (player_lasers s)"
  by (simp add: check_level_cleared_def Let_def)

lemma loop_body_lasers:
  assumes "length (player_lasers (state v)) \<le> 3"
  shows "length (player_lasers (state (loop_body i v))) \<le> 3"
proof -
  let ?v1 = "v\<lparr>state := handle_input (key i) (state v)\<rparr>"
  let ?v3 = "animation_pass (now i) (movement_pass (now i) ?v1)"
  let ?s4 = "aliens_fire (rnd i) (pick i) (state ?v3)"
  have "length (player_lasers (state ?v3)) \<le> 3"
    using handle_input_lasers [OF assms, of "key i"]
    by (simp add: animation_pass_frame movement_pass_frame)
  then have "length (player_lasers ?s4) \<le> 3"
    by (simp add: aliens_fire_frame)
  then have "length (player_lasers (update_lasers ?s4)) \<le> 3"
    using update_lasers_length [of ?s4] by linarith
  then have "length (player_lasers (player_lasers_hit_aliens (update_lasers ?s4))) \<le> 3"
    using player_lasers_hit_aliens_length [of "update_lasers ?s4"] by linarith
  then have "length (player_lasers (alien_lasers_hit_player (player_lasers_hit_aliens (update_lasers ?s4)))) \<le> 3"
    by (simp add: alien_lasers_hit_player_frame)
  then have "length (player_lasers (check_level_cleared (alien_lasers_hit_player (player_lasers_hit_aliens (update_lasers ?s4))))) \<le> 3"
    using check_level_cleared_length [of "alien_lasers_hit_player (player_lasers_hit_aliens (update_lasers ?s4))"]
    by linarith
  then show ?thesis
    by (simp add: loop_body_def Let_def)
qed

lemma fold_loop_body_lasers:
  "length (player_lasers (state v)) \<le> 3 \<Longrightarrow>
     length (player_lasers (state (fold loop_body ins v))) \<le> 3"
  by (induction ins arbitrary: v) (simp_all add: loop_body_lasers)

subsection \<open>The three passes from the start\<close>

lemma spec_spawn_80_nth_50: "spec_spawn 80 ! 50 = Alien 42 10"
  by (simp add: spec_spawn_def upto_0_4 upto_0_10)

lemma spec_spawn_not_Nil: "spec_spawn w \<noteq> []"
  using length_spec_spawn [of w] by auto

lemma small_run_pass_1:
  "loop_body \<lparr>now = 1 / 10, key = KEY_RIGHT, rnd = 1 / 2, pick = 0\<rparr>
     \<lparr>state = GameState 14 80, last_move = 0, last_anim = 0\<rparr> =
   \<lparr>state = GameState 14 80\<lparr>player := Player 41 12 80\<rparr>, last_move = 0, last_anim = 0\<rparr>"
  by (simp add: GameState_eq eval_defs spec_spawn_not_Nil)

lemma small_run_pass_2:
  "loop_body \<lparr>now = 1 / 10, key = KEY_RIGHT, rnd = 1 / 2, pick = 0\<rparr>
     \<lparr>state = GameState 14 80\<lparr>player := Player 41 12 80\<rparr>, last_move = 0, last_anim = 0\<rparr> =
   \<lparr>state = GameState 14 80\<lparr>player := Player 42 12 80\<rparr>, last_move = 0, last_anim = 0\<rparr>"
  by (simp add: GameState_eq eval_defs spec_spawn_not_Nil)

lemma small_run_pass_3:
  "loop_body \<lparr>now = 1 / 10, key = - 1, rnd = 1 / 100, pick = 50\<rparr>
     \<lparr>state = GameState 14 80\<lparr>player := Player 42 12 80\<rparr>, last_move = 0, last_anim = 0\<rparr> =
   \<lparr>state = GameState 14 80\<lparr>player := Player 42 12 80, alien_lasers := [Laser 42 12 1],
                              game_over := True\<rparr>,
    last_move = 0, last_anim = 0\<rparr>"
  by (simp add: GameState_eq eval_defs spec_spawn_not_Nil length_spec_spawn spec_spawn_80_nth_50)

lemma game_loop_small_run:
  "game_loop small_run \<lparr>state = GameState 14 80, last_move = 0, last_anim = 0\<rparr> =
     Some (GameOver,
       \<lparr>state = GameState 14 80\<lparr>player := Player 42 12 80, alien_lasers := [Laser 42 12 1],
                                  game_over := True\<rparr>,
        last_move = 0, last_anim = 0\<rparr>)"
proof -
  have keys: "KEY_RIGHT \<noteq> ord_q" "KEY_RIGHT \<noteq> ord_Q" "- 1 \<noteq> ord_q" "- 1 \<noteq> ord_Q"
    by (simp_all add: KEY_RIGHT_def ord_q_def ord_Q_def)
  have running: "\<not> game_over (GameState 14 80)"
    by (simp add: GameState_eq)
  show ?thesis
    by (simp add: small_run_def keys running small_run_pass_1 small_run_pass_2 small_run_pass_3)
qed

lemma length_msg: "length msg = 33"
  by (simp add: msg_def)

lemma play_small_run:
  "play 14 80 0 small_run =
     Some (GameOver,
       GameState 14 80\<lparr>player := Player 42 12 80, alien_lasers := [Laser 42 12 1],
                        game_over := True\<rparr>,
       [Nodelay False, Addstr 7 23 msg, Getch], None)"
  unfolding play_def game_loop_small_run
  by (simp add: game_over_screen_def addstr_raises_def length_msg GameState_eq)



subsection \<open>The same three passes on a screen of 20 columns\<close>







subsection \<open>When the message fits the window\<close>



subsection \<open>The player stays on the field\<close>

lemma loop_body_player:
  "player (state (loop_body i v)) = player (handle_input (key i) (state v))"
  by (simp add: loop_body_def Let_def check_level_cleared_frame alien_lasers_hit_player_frame
      player_lasers_hit_aliens_frame update_lasers_frame aliens_fire_frame animation_pass_frame
      movement_pass_frame)

lemma handle_input_player:
  "player (handle_input k s) =
     (if k = KEY_LEFT then move (- 1) (player s)
      else if k = KEY_RIGHT then move 1 (player s) else player s)"
  by (simp add: handle_input_def)

lemma loop_body_player_in_range:
  assumes "1 \<le> x (player (state v)) \<and> x (player (state v)) \<le> max_x (player (state v)) - 2"
  shows "1 \<le> x (player (state (loop_body i v))) \<and>
         x (player (state (loop_body i v))) \<le> max_x (player (state (loop_body i v))) - 2"
  using assms move_in_range [of "player (state v)"]
  by (simp add: loop_body_player handle_input_player)

lemma fold_loop_body_player_in_range:
  "1 \<le> x (player (state v)) \<and> x (player (state v)) \<le> max_x (player (state v)) - 2 \<Longrightarrow>
   1 \<le> x (player (state (fold loop_body ins v))) \<and>
   x (player (state (fold loop_body ins v))) \<le> max_x (player (state (fold loop_body ins v))) - 2"
proof (induction ins arbitrary: v)
  case Nil
  then show ?case by simp
next
  case (Cons i ins)
  from Cons.IH [OF loop_body_player_in_range [OF Cons.prems]] show ?case by simp
qed

lemma fold_loop_body_max_x:
  "max_x (player (state (fold loop_body ins v))) = max_x (player (state v))"
  by (induction ins arbitrary: v) (simp_all add: loop_body_frame)

lemma fold_small_run:
  "fold loop_body small_run \<lparr>state = GameState 14 80, last_move = 0, last_anim = 0\<rparr> =
     \<lparr>state = GameState 14 80\<lparr>player := Player 42 12 80, alien_lasers := [Laser 42 12 1],
                                game_over := True\<rparr>,
      last_move = 0, last_anim = 0\<rparr>"
  by (simp add: small_run_def small_run_pass_1 small_run_pass_2 small_run_pass_3)

section \<open>Player.move\<close>

text \<open>
  Claim C6. \<^verbatim>\<open>Player.move(dx)\<close> sets \<open>x\<close> to \<open>x + dx\<close> clamped to the interval from
  1 to \<open>max_x - 2\<close> and changes no other field of the player (\<open>max_x\<close> is the width
  of the field, which the constructor stores). From a position inside that interval,
  any sequence of moves leaves \<open>x\<close> inside it. In the game, on a field at least 3
  columns wide, the player's \<open>x\<close> is between 1 and \<open>width - 2\<close> after any number
  of passes of the loop.
\<close>

theorem Player_move_clamps:
  "move dx p = p\<lparr>x := clamp (x p + dx) 1 (max_x p - 2)\<rparr> \<and>
   max_x (player (GameState h w)) = w \<and>
   (1 \<le> x p \<and> x p \<le> max_x p - 2 \<longrightarrow>
      1 \<le> x (fold move dxs p) \<and> x (fold move dxs p) \<le> max_x p - 2) \<and>
   (3 \<le> w \<longrightarrow>
      1 \<le> x (player (state (fold loop_body ins
             \<lparr>state = GameState h w, last_move = t0, last_anim = t0\<rparr>))) \<and>
      x (player (state (fold loop_body ins
             \<lparr>state = GameState h w, last_move = t0, last_anim = t0\<rparr>))) \<le> w - 2)"
proof -
  let ?v = "\<lparr>state = GameState h w, last_move = t0, last_anim = t0\<rparr>"
  have "3 \<le> w \<longrightarrow>
      1 \<le> x (player (state (fold loop_body ins ?v))) \<and>
      x (player (state (fold loop_body ins ?v))) \<le> w - 2"
  proof
    assume "3 \<le> w"
    then have "1 \<le> x (player (state ?v)) \<and> x (player (state ?v)) \<le> max_x (player (state ?v)) - 2"
      by (simp add: GameState_eq Player_def) linarith
    from fold_loop_body_player_in_range [OF this, of ins] fold_loop_body_max_x [of ins ?v]
    show "1 \<le> x (player (state (fold loop_body ins ?v))) \<and>
      x (player (state (fold loop_body ins ?v))) \<le> w - 2"
      by (simp add: GameState_eq Player_def)
  qed
  then show ?thesis
    using fold_move_in_range [of p dxs]
    by (simp add: move_def clamp_def GameState_eq Player_def)
qed

theorem Player_move_clamps_witness:
  "move 50 (Player 40 22 80) = Player 78 22 80 \<and>
   1 \<le> x (Player 40 22 80) \<and> x (Player 40 22 80) \<le> max_x (Player 40 22 80) - 2 \<and>
   1 \<le> x (fold move [1, 1, - 1, 50, - 100] (Player 40 22 80)) \<and>
   x (fold move [1, 1, - 1, 50, - 100] (Player 40 22 80)) \<le> 78 \<and>
   x (player (state (fold loop_body small_run
        \<lparr>state = GameState 14 80, last_move = 0, last_anim = 0\<rparr>))) = 42 \<and>
   (1::int) \<le> 42 \<and> (42::int) \<le> 80 - 2"
  using Player_move_clamps [of 50 "Player 40 22 80" 14 80 "[1, 1, - 1, 50, - 100]" small_run 0]
    fold_small_run
  by (simp add: Player_def clamp_def)

section \<open>The wave spawner\<close>

text \<open>
  Claim C3. \<^verbatim>\<open>init_aliens\<close> on an empty alien list builds the wave of the
  specification, which depends on the width of the field and on nothing else. For
  width 80 these are 55 aliens, at the columns 18, 22, ..., 58 of the rows 2, 4, ..., 10.
  When the last alien of a wave has been shot, the level check builds the same list of
  aliens as the constructor of the game state did.
\<close>

theorem wave_spawner_grid:
  "aliens (GameState h w) = spec_spawn w \<and>
   (aliens s = [] \<longrightarrow> aliens (init_aliens s) = spec_spawn (width s)) \<and>
   length (aliens (GameState h 80)) = 55 \<and>
   map (\<lambda>a. (x a, y a)) (aliens (GameState h 80)) =
     [(18 + 4 * c, 2 + 2 * r). r \<leftarrow> [0..4], c \<leftarrow> [0..10]] \<and>
   (aliens s = [] \<longrightarrow> aliens (check_level_cleared s) = aliens (GameState h (width s)))"
  by (simp add: GameState_eq init_aliens_eq length_spec_spawn check_level_cleared_def Let_def)
    (simp add: spec_spawn_def Alien_def o_def map_concat)

theorem wave_spawner_grid_witness:
  "aliens (GameState 24 80\<lparr>aliens := []\<rparr>) = [] \<and>
   aliens (check_level_cleared (GameState 24 80\<lparr>aliens := []\<rparr>)) = aliens (GameState 24 80) \<and>
   aliens (init_aliens (GameState 24 80\<lparr>aliens := []\<rparr>)) = spec_spawn 80 \<and>
   length (aliens (check_level_cleared (GameState 24 80\<lparr>aliens := []\<rparr>))) = 55"
  using wave_spawner_grid [of 24 80 "GameState 24 80\<lparr>aliens := []\<rparr>"]
    wave_spawner_grid [of 24 "width (GameState 24 80\<lparr>aliens := []\<rparr>)" "GameState 24 80\<lparr>aliens := []\<rparr>"]
  by (simp add: GameState_eq)

section \<open>The march interval\<close>

text \<open>
  Claim C4. At every level the march interval is the larger of 0.05 and
  \<open>0.30 - (level - 1) * 0.03\<close>; at level 10 it is 0.05; it is never below 0.05, so
  never negative; and the floor is reached from level 10 on. (The arithmetic is that
  of the reals.)
\<close>

theorem alien_speed_interval:
  "alien_speed s = max (5 / 100) (30 / 100 - real_of_int (level s - 1) * (3 / 100)) \<and>
   alien_speed (s\<lparr>level := 10\<rparr>) = 5 / 100 \<and>
   5 / 100 \<le> alien_speed s \<and> 0 < alien_speed s \<and>
   (alien_speed s = 5 / 100 \<longleftrightarrow> 10 \<le> level s)"
proof -
  have floor: "alien_speed s = 5 / 100 \<longleftrightarrow> 10 \<le> level s"
  proof (cases "10 \<le> level s")
    case True
    then have "real_of_int (level s - 1) \<ge> 9" by simp
    then have "3 / 10 - real_of_int (level s - 1) * (3 / 100) \<le> 5 / 100" by simp
    with True show ?thesis by (simp add: alien_speed_def max_def)
  next
    case False
    then have "level s - 1 \<le> 8" by simp
    then have "real_of_int (level s - 1) \<le> 8" by linarith
    then have "3 / 10 - real_of_int (level s - 1) * (3 / 100) > 5 / 100" by simp
    with False show ?thesis by (simp add: alien_speed_def max_def)
  qed
  have "5 / 100 \<le> alien_speed s"
    by (simp add: alien_speed_def)
  then show ?thesis
    using floor by (simp add: alien_speed_def)
qed

section \<open>The player's row\<close>

text \<open>
  Claim C10. The constructor of the game state puts the player on row \<open>height - 2\<close>.
  \<^verbatim>\<open>Player.move\<close> leaves \<open>y\<close> as it is, and so does every part of the loop body,
  the whole loop body, and the loop: when \<^verbatim>\<open>play\<close> leaves the loop the player is
  still on row \<open>height - 2\<close>, however many waves were cleared.
\<close>

theorem player_row_constant:
  "y (player (GameState h w)) = h - 2 \<and>
   y (move dx p) = y p \<and>
   y (player (handle_input k s)) = y (player s) \<and>
   y (player (update_aliens_movement s)) = y (player s) \<and>
   y (player (alien_animation s)) = y (player s) \<and>
   y (player (aliens_fire r n s)) = y (player s) \<and>
   y (player (update_lasers s)) = y (player s) \<and>
   y (player (player_lasers_hit_aliens s)) = y (player s) \<and>
   y (player (alien_lasers_hit_player s)) = y (player s) \<and>
   y (player (check_level_cleared s)) = y (player s) \<and>
   y (player (state (loop_body i v))) = y (player (state v)) \<and>
   (game_loop ins v = Some (e, v') \<longrightarrow> y (player (state v')) = y (player (state v))) \<and>
   (play h w t0 ins = Some (e, s', cs) \<longrightarrow> y (player s') = h - 2)"
proof -
  have loop: "game_loop ins v = Some (e, v') \<longrightarrow> y (player (state v')) = y (player (state v))"
    for v v'
    using game_loop_frame [of ins v e v'] by simp
  have "play h w t0 ins = Some (e, s', cs) \<longrightarrow> y (player s') = h - 2"
  proof
    assume run: "play h w t0 ins = Some (e, s', cs)"
    then obtain v' where
      "game_loop ins \<lparr>state = GameState h w, last_move = t0, last_anim = t0\<rparr> = Some (e, v')"
      and "s' = state v'"
      by (auto simp add: play_def split: option.splits)
    with loop show "y (player s') = h - 2"
      by (fastforce simp add: GameState_eq Player_def)
  qed
  with loop show ?thesis
    by (simp add: GameState_eq Player_def move_def handle_input_frame
        update_aliens_movement_frame alien_animation_frame aliens_fire_frame
        update_lasers_frame player_lasers_hit_aliens_frame alien_lasers_hit_player_frame
        check_level_cleared_frame loop_body_frame)
qed

theorem player_row_constant_witness:
  "game_loop [demo_input] \<lparr>state = demo, last_move = 0, last_anim = 0\<rparr> =
     Some (GameOver,
       \<lparr>state = demo\<lparr>aliens := [Alien 14 5], player_lasers := [Laser 3 8 (- 1)],
                     alien_lasers := [Laser 40 22 1, Laser 7 8 1], score := 10, game_over := True\<rparr>,
        last_move = 0, last_anim = 0\<rparr>) \<and>
   y (player (demo\<lparr>aliens := [Alien 14 5], player_lasers := [Laser 3 8 (- 1)],
                   alien_lasers := [Laser 40 22 1, Laser 7 8 1], score := 10,
                   game_over := True\<rparr>)) = 22 \<and>
   y (player demo) = 22"
  using player_row_constant [of 24 80 0 "player demo" "- 1" demo "1 / 2" 0 demo_input
      "\<lparr>state = demo, last_move = 0, last_anim = 0\<rparr>" "[demo_input]" GameOver
      "\<lparr>state = demo\<lparr>aliens := [Alien 14 5], player_lasers := [Laser 3 8 (- 1)],
                     alien_lasers := [Laser 40 22 1, Laser 7 8 1], score := 10, game_over := True\<rparr>,
        last_move = 0, last_anim = 0\<rparr>" 0]
    game_loop_demo
  by (simp add: demo_def Player_def)

section \<open>The march of the aliens\<close>

text \<open>
  Claim C1. When the march is due, every alien's \<open>x\<close> grows by \<^verbatim>\<open>alien_dir\<close>. The
  edge condition (\<open>x \<le> 1\<close> or \<open>x \<ge> width - 2\<close>) is then a condition on all the aliens
  as they stand after the move: the loop has no exit, so an alien at the margin does
  not stop the others from moving or from being tested. If some alien is at a margin,
  \<^verbatim>\<open>alien_dir\<close> changes sign once, every alien's \<open>y\<close> grows by 1, and the game is
  over if some alien is then on the player's row or below it (or if it was over
  already); otherwise nothing but the aliens' \<open>x\<close> changes. A single alien at \<open>x = 1\<close>
  marching right goes to \<open>x = 2\<close>, and on a field wider than 4 columns this is no edge
  hit.
\<close>

theorem march_checks_all_then_reacts_once:
  "update_aliens_movement s =
    (let moved = map (\<lambda>a. a\<lparr>x := x a + alien_dir s\<rparr>) (aliens s) in
     if \<exists>a\<in>set moved. x a \<le> 1 \<or> x a \<ge> width s - 2
     then s\<lparr>aliens := map (\<lambda>a. a\<lparr>y := y a + 1\<rparr>) moved, alien_dir := - alien_dir s,
            game_over := game_over s \<or> (\<exists>a\<in>set moved. y a + 1 \<ge> y (player s))\<rparr>
     else s\<lparr>aliens := moved\<rparr>) \<and>
   (aliens s = [a] \<and> x a = 1 \<and> alien_dir s = 1 \<and> 4 < width s \<longrightarrow>
      update_aliens_movement s = s\<lparr>aliens := [a\<lparr>x := 2\<rparr>]\<rparr>)"
  by (simp add: march_eq Let_def)

theorem march_checks_all_then_reacts_once_witness:
  "update_aliens_movement (demo\<lparr>aliens := [Alien 1 5]\<rparr>) = demo\<lparr>aliens := [Alien 2 5]\<rparr> \<and>
   update_aliens_movement (demo\<lparr>aliens := [Alien 77 5, Alien 30 21]\<rparr>) =
     demo\<lparr>aliens := [Alien 78 6, Alien 31 22], alien_dir := - 1, game_over := True\<rparr>"
  using march_checks_all_then_reacts_once [of "demo\<lparr>aliens := [Alien 1 5]\<rparr>" "Alien 1 5"]
    march_checks_all_then_reacts_once [of "demo\<lparr>aliens := [Alien 77 5, Alien 30 21]\<rparr>" "Alien 1 5"]
  by (simp add: demo_def Alien_def Player_def Let_def)

section \<open>Alien lasers and the player\<close>

text \<open>
  Claim C8. The pass over the alien lasers leaves the game-over flag set exactly when
  it was set before or some alien laser has the player's \<open>x\<close> and the player's \<open>y\<close>.
  The flag is a truth value, so two lasers on the player set it as one does. No other
  field of the state changes: both lists of lasers, the aliens, the player and the
  score are as they were.
\<close>

theorem alien_laser_on_player_sets_game_over:
  "alien_lasers_hit_player s =
     s\<lparr>game_over := game_over s \<or>
         (\<exists>l\<in>set (alien_lasers s). x l = x (player s) \<and> y l = y (player s))\<rparr>"
  by (simp add: alien_lasers_hit_player_def lasers_hit_player_eq)

theorem alien_laser_on_player_sets_game_over_witness:
  "alien_lasers_hit_player (demo\<lparr>alien_lasers := [Laser 40 22 1, Laser 7 8 1, Laser 40 22 1]\<rparr>) =
     demo\<lparr>alien_lasers := [Laser 40 22 1, Laser 7 8 1, Laser 40 22 1], game_over := True\<rparr> \<and>
   alien_lasers_hit_player demo = demo"
  using alien_laser_on_player_sets_game_over
      [of "demo\<lparr>alien_lasers := [Laser 40 22 1, Laser 7 8 1, Laser 40 22 1]\<rparr>"]
    alien_laser_on_player_sets_game_over [of demo]
  by (simp add: demo_def Laser_def Player_def)

section \<open>Moving the lasers\<close>

text \<open>
  Claim C9, as the program has it. Every laser moves one step along its direction:
  \<open>y\<close> becomes \<open>y + dir\<close>, nothing else in the laser changes. Then exactly the player
  lasers with \<open>y \<le> 1\<close> are gone, that is, those on the row below the top border or
  above it, and exactly the alien lasers with \<open>y \<ge> height - 1\<close>, those on the bottom
  border or past it. The other lasers stay, in their order.
\<close>

theorem lasers_removed_at_row_1_and_bottom_border:
  "update_lasers s =
     s\<lparr>player_lasers := filter (\<lambda>l. 1 < y l) (map update (player_lasers s)),
       alien_lasers := filter (\<lambda>l. y l < height s - 1) (map update (alien_lasers s))\<rparr> \<and>
   x (update l) = x l \<and> y (update l) = y l + dir l \<and> dir (update l) = dir l \<and>
   char (update l) = char l"
  by (simp add: update_lasers_def update_player_lasers_eq update_alien_lasers_eq update_def)

theorem lasers_removed_at_row_1_and_bottom_border_witness:
  "update_lasers (demo\<lparr>player_lasers := [Laser 5 2 (- 1), Laser 3 9 (- 1)],
                      alien_lasers := [Laser 40 21 1, Laser 7 22 1]\<rparr>) =
     demo\<lparr>player_lasers := [Laser 3 8 (- 1)], alien_lasers := [Laser 40 22 1]\<rparr>"
  using lasers_removed_at_row_1_and_bottom_border
      [of "demo\<lparr>player_lasers := [Laser 5 2 (- 1), Laser 3 9 (- 1)],
                 alien_lasers := [Laser 40 21 1, Laser 7 22 1]\<rparr>"]
  by (simp add: demo_def Laser_def update_def)

text \<open>
  Claim C9, as it is worded, fails for a player laser that moves from row 2 to row 1:
  the top border is row 0, the laser has not reached it, and the program removes the
  laser all the same.
\<close>

theorem laser_at_row_1_counterexample:
  "player_lasers (update_lasers (demo\<lparr>player_lasers := [Laser 5 2 (- 1)]\<rparr>)) = [] \<and>
   player_lasers (spec_update_lasers (demo\<lparr>player_lasers := [Laser 5 2 (- 1)]\<rparr>)) =
     [Laser 5 1 (- 1)] \<and>
   update_lasers (demo\<lparr>player_lasers := [Laser 5 2 (- 1)]\<rparr>) \<noteq>
     spec_update_lasers (demo\<lparr>player_lasers := [Laser 5 2 (- 1)]\<rparr>)"
  by (simp add: update_lasers_def spec_update_lasers_def demo_def update_def Laser_def
      top_border_def bottom_border_def)

section \<open>Player lasers and aliens\<close>



section \<open>The cap on the player's lasers\<close>

text \<open>
  Claim C7. A fire key appends one laser, at the player's column, one row above the
  player, going up, when fewer than three player lasers are in the list, and changes
  nothing otherwise; any other key leaves the list alone. Of the other parts of the
  loop body, the alien movement, the animation, the aliens' fire and the alien laser
  test leave the list as it is, and the laser update, the hit test and the level
  check can only make it shorter. So a list of at most three lasers has at most three
  after the loop body, and since the game starts with none, the list has at most three
  lasers after any number of passes, and when \<^verbatim>\<open>play\<close> leaves the loop.
\<close>

theorem player_lasers_capped:
  "(k = ord_space \<or> k = ord_z \<longrightarrow>
      player_lasers (handle_input k s) =
        (if length (player_lasers s) < 3
         then player_lasers s @ [Laser (x (player s)) (y (player s) - 1) (- 1)]
         else player_lasers s)) \<and>
   (k \<noteq> ord_space \<and> k \<noteq> ord_z \<longrightarrow> player_lasers (handle_input k s) = player_lasers s) \<and>
   player_lasers (update_aliens_movement s) = player_lasers s \<and>
   player_lasers (alien_animation s) = player_lasers s \<and>
   player_lasers (aliens_fire r n s) = player_lasers s \<and>
   length (player_lasers (update_lasers s)) \<le> length (player_lasers s) \<and>
   length (player_lasers (player_lasers_hit_aliens s)) \<le> length (player_lasers s) \<and>
   player_lasers (alien_lasers_hit_player s) = player_lasers s \<and>
   length (player_lasers (check_level_cleared s)) \<le> length (player_lasers s) \<and>
   (length (player_lasers (state v)) \<le> 3 \<longrightarrow>
      length (player_lasers (state (loop_body i v))) \<le> 3) \<and>
   length (player_lasers (state (fold loop_body ins
      \<lparr>state = GameState h w, last_move = t0, last_anim = t0\<rparr>))) \<le> 3 \<and>
   (play h w t0 ins = Some (e, s', cs) \<longrightarrow> length (player_lasers s') \<le> 3)"
proof -
  have start: "length (player_lasers (state \<lparr>state = GameState h w, last_move = t0, last_anim = t0\<rparr>)) \<le> 3"
    by (simp add: GameState_eq)
  have "play h w t0 ins = Some (e, s', cs) \<longrightarrow> length (player_lasers s') \<le> 3"
  proof
    assume "play h w t0 ins = Some (e, s', cs)"
    then obtain v' where
      run: "game_loop ins \<lparr>state = GameState h w, last_move = t0, last_anim = t0\<rparr> = Some (e, v')"
      and "s' = state v'"
      by (auto simp add: play_def split: option.splits)
    with game_loop_invariant [where P = "\<lambda>v. length (player_lasers (state v)) \<le> 3", OF loop_body_lasers start run]
    show "length (player_lasers s') \<le> 3" by simp
  qed
  moreover have "k = ord_space \<or> k = ord_z \<longrightarrow>
      player_lasers (handle_input k s) =
        (if length (player_lasers s) < 3
         then player_lasers s @ [Laser (x (player s)) (y (player s) - 1) (- 1)]
         else player_lasers s)"
    by (auto simp add: handle_input_def ord_space_def ord_z_def KEY_LEFT_def KEY_RIGHT_def)
  moreover have "k \<noteq> ord_space \<and> k \<noteq> ord_z \<longrightarrow> player_lasers (handle_input k s) = player_lasers s"
    by (simp add: handle_input_def)
  ultimately show ?thesis
    using fold_loop_body_lasers [OF start, of ins] loop_body_lasers [of v i]
    by (simp add: update_aliens_movement_frame alien_animation_frame aliens_fire_frame
        update_lasers_length player_lasers_hit_aliens_length alien_lasers_hit_player_frame
        check_level_cleared_length)
qed

theorem player_lasers_capped_witness:
  "player_lasers (handle_input ord_space demo) =
     [Laser 10 6 (- 1), Laser 3 9 (- 1), Laser 40 21 (- 1)] \<and>
   player_lasers (handle_input ord_z (handle_input ord_space demo)) =
     [Laser 10 6 (- 1), Laser 3 9 (- 1), Laser 40 21 (- 1)] \<and>
   player_lasers (handle_input KEY_LEFT demo) = player_lasers demo \<and>
   length (player_lasers demo) \<le> 3 \<and>
   length (player_lasers (state (loop_body demo_input
      \<lparr>state = demo, last_move = 0, last_anim = 0\<rparr>))) \<le> 3 \<and>
   play 14 80 0 small_run =
     Some (GameOver,
       GameState 14 80\<lparr>player := Player 42 12 80, alien_lasers := [Laser 42 12 1],
                        game_over := True\<rparr>,
       [Nodelay False, Addstr 7 23 msg, Getch], None) \<and>
   length (player_lasers (GameState 14 80\<lparr>player := Player 42 12 80,
      alien_lasers := [Laser 42 12 1], game_over := True\<rparr>)) \<le> 3"
  using player_lasers_capped [of ord_space demo 0 0 "\<lparr>state = demo, last_move = 0, last_anim = 0\<rparr>"
      demo_input small_run 14 80 0 GameOver
      "GameState 14 80\<lparr>player := Player 42 12 80, alien_lasers := [Laser 42 12 1],
                        game_over := True\<rparr>"
      "([Nodelay False, Addstr 7 23 msg, Getch], None)"]
    player_lasers_capped [of ord_z "handle_input ord_space demo"]
    player_lasers_capped [of KEY_LEFT demo]
    play_small_run
  by (simp add: demo_def Player_def ord_space_def ord_z_def KEY_LEFT_def)

section \<open>Leaving the loop\<close>




end
